theory Spec2Isabelle
  imports
    Complex_Main
    "HOL-Library.Char_ord"
    "HOL-Library.List_Lexorder"
    "HOL-Library.Product_Lexorder"
    "HOL-Library.Multiset"
begin

section \<open>Python values reaching the handlers\<close>

text \<open>
  The two text boxes and the drop-down deliver a \<open>str\<close> or \<open>None\<close>, modelled as
  \<open>string option\<close>; a \<open>string\<close> stands for a Python \<open>str\<close> whose code points are
  below 256. The number boxes deliver \<open>None\<close>, an \<open>int\<close> or a \<open>float\<close>, and a direct
  caller may pass a \<open>str\<close> (the handlers catch \<open>ValueError\<close> for that case).
  A finite float is given by its exact rational value.
\<close>

datatype pyfloat = Finite rat | PosInf | NegInf | NaN

datatype pyval = PNone | PInt int | PFloat pyfloat | PStr string

datatype exn = ValueError | TypeError | OverflowError | AttributeError | IntegrityError

text \<open>Truthiness, as used by \<open>if not (a and b and ...)\<close>.\<close>

definition truthy_str :: "string option \<Rightarrow> bool" where
  "truthy_str v = (case v of None \<Rightarrow> False | Some s \<Rightarrow> s \<noteq> [])"

fun truthy :: "pyval \<Rightarrow> bool" where
  "truthy PNone = False"
| "truthy (PInt n) = (n \<noteq> 0)"
| "truthy (PFloat (Finite q)) = (q \<noteq> 0)"
| "truthy (PFloat _) = True"
| "truthy (PStr s) = (s \<noteq> [])"

subsection \<open>\<open>str.strip()\<close>\<close>

text \<open>The white space of \<open>str.isspace\<close> among the code points below 256.\<close>

definition py_isspace :: "char \<Rightarrow> bool" where
  "py_isspace c =
     (let n = (of_char c :: nat)
      in (9 \<le> n \<and> n \<le> 13) \<or> (28 \<le> n \<and> n \<le> 32) \<or> n = 133 \<or> n = 160)"

definition strip :: "string \<Rightarrow> string" where
  "strip s = rev (dropWhile py_isspace (rev (dropWhile py_isspace s)))"

subsection \<open>\<open>int(x)\<close> and \<open>float(x)\<close>\<close>

definition is_digit :: "char \<Rightarrow> bool" where
  "is_digit c = (48 \<le> (of_char c :: nat) \<and> (of_char c :: nat) \<le> 57)"

definition digit_val :: "char \<Rightarrow> int" where
  "digit_val c = of_char c - 48"

text \<open>
  A digit part is \<open>digit (["_"] digit)*\<close>. The result is the value and the number of
  digits; \<open>prev\<close> says that the character before was a digit.
\<close>

fun digitpart_acc :: "bool \<Rightarrow> int \<Rightarrow> nat \<Rightarrow> string \<Rightarrow> (int \<times> nat) option" where
  "digitpart_acc prev acc k [] = (if prev then Some (acc, k) else None)"
| "digitpart_acc prev acc k (c # cs) =
     (if is_digit c then digitpart_acc True (acc * 10 + digit_val c) (Suc k) cs
      else if c = CHR ''_'' \<and> prev then digitpart_acc False acc k cs
      else None)"

definition digitpart :: "string \<Rightarrow> (int \<times> nat) option" where
  "digitpart s = digitpart_acc False 0 0 s"

text \<open>
  Before parsing, the numeric constructors turn white space above ASCII into a blank and
  then drop the blanks of C's \<open>isspace\<close> at both ends.
\<close>

definition c_isspace :: "char \<Rightarrow> bool" where
  "c_isspace c = (let n = (of_char c :: nat) in (9 \<le> n \<and> n \<le> 13) \<or> n = 32)"

definition to_ascii_space :: "char \<Rightarrow> char" where
  "to_ascii_space c =
     (let n = (of_char c :: nat) in if n = 133 \<or> n = 160 then CHR '' '' else c)"

definition numeric_strip :: "string \<Rightarrow> string" where
  "numeric_strip s =
     (let t = map to_ascii_space s
      in rev (dropWhile c_isspace (rev (dropWhile c_isspace t))))"

fun split_sign :: "string \<Rightarrow> bool \<times> string" where
  "split_sign (c # cs) =
     (if c = CHR ''-'' then (True, cs) else if c = CHR ''+'' then (False, cs)
      else (False, c # cs))"
| "split_sign [] = (False, [])"

text \<open>
  \<open>int(s)\<close> for a string, base ten: \<open>[sign] digitpart\<close> between white space. A literal of
  more than 4300 digits (leading zeros counted, underscores not) raises \<open>ValueError\<close>: the
  default of \<open>sys.int_max_str_digits\<close>. \<open>float(s)\<close> has no such limit.
\<close>

definition int_max_str_digits :: nat where
  "int_max_str_digits = 4300"

definition int_of_str :: "string \<Rightarrow> exn + int" where
  "int_of_str s =
     (case split_sign (numeric_strip s) of
        (neg, body) \<Rightarrow>
          (case digitpart body of
             None \<Rightarrow> Inl ValueError
           | Some (n, k) \<Rightarrow>
               if int_max_str_digits < k then Inl ValueError
               else Inr (if neg then - n else n)))"

text \<open>Rounding a rational to the nearest binary64 value, ties to even.\<close>

function bit_length :: "int \<Rightarrow> int" where
  "bit_length n = (if n \<le> 0 then 0 else 1 + bit_length (n div 2))"
  by pat_completeness auto
termination
  by (relation "measure nat") auto

definition pow2 :: "int \<Rightarrow> rat" where
  "pow2 e = (if 0 \<le> e then 2 ^ nat e else 1 / 2 ^ nat (- e))"

definition round_half_even :: "rat \<Rightarrow> int" where
  "round_half_even x =
     (let f = \<lfloor>x\<rfloor>; d = x - of_int f
      in if d < 1 / 2 then f else if 1 / 2 < d then f + 1
         else if even f then f else f + 1)"

definition round_binary64_pos :: "rat \<Rightarrow> rat" where
  "round_binary64_pos q =
     (case quotient_of q of
        (a, b) \<Rightarrow>
          (let e0 = bit_length a - bit_length b;
               fl = (if pow2 e0 \<le> q then e0 else e0 - 1);
               p = max (fl - 52) (- 1074)
           in of_int (round_half_even (q / pow2 p)) * pow2 p))"

definition round_binary64 :: "rat \<Rightarrow> pyfloat" where
  "round_binary64 q =
     (if q = 0 then Finite 0
      else if 0 < q then
        (let r = round_binary64_pos q in if 2 ^ 1024 \<le> r then PosInf else Finite r)
      else
        (let r = round_binary64_pos (- q) in if 2 ^ 1024 \<le> r then NegInf else Finite (- r)))"

text \<open>
  \<open>float(s)\<close> for a string: \<open>[sign] (inf | infinity | nan | number [exponent])\<close> between
  white space, where \<open>number\<close> is \<open>[digitpart] "." digitpart | digitpart ["."]\<close> and
  \<open>exponent\<close> is \<open>("e" | "E") [sign] digitpart\<close>.
\<close>

definition lower :: "char \<Rightarrow> char" where
  "lower c =
     (let n = (of_char c :: nat) in if 65 \<le> n \<and> n \<le> 90 then char_of (n + 32) else c)"

definition is_e :: "char \<Rightarrow> bool" where
  "is_e c = (c = CHR ''e'' \<or> c = CHR ''E'')"

definition is_dot :: "char \<Rightarrow> bool" where
  "is_dot c = (c = CHR ''.'')"

definition parse_number :: "string \<Rightarrow> rat option" where
  "parse_number s =
     (let ip = takeWhile (\<lambda>c. \<not> is_dot c) s; rest = dropWhile (\<lambda>c. \<not> is_dot c) s
      in if rest = [] then
           (case digitpart ip of None \<Rightarrow> None | Some (n, _) \<Rightarrow> Some (of_int n))
         else
           (let fp = tl rest
            in if ip = [] \<and> fp = [] then None
               else
                 (case (if ip = [] then Some (0, 0) else digitpart ip) of
                    None \<Rightarrow> None
                  | Some (n, _) \<Rightarrow>
                      (case (if fp = [] then Some (0, 0) else digitpart fp) of
                         None \<Rightarrow> None
                       | Some (m, k) \<Rightarrow> Some (of_int n + of_int m / 10 ^ k)))))"

definition parse_exponent :: "string \<Rightarrow> int option" where
  "parse_exponent s =
     (case split_sign s of
        (neg, body) \<Rightarrow>
          (case digitpart body of
             None \<Rightarrow> None
           | Some (n, _) \<Rightarrow> Some (if neg then - n else n)))"

definition pow10 :: "int \<Rightarrow> rat" where
  "pow10 e = (if 0 \<le> e then 10 ^ nat e else 1 / 10 ^ nat (- e))"

definition parse_floatnumber :: "string \<Rightarrow> rat option" where
  "parse_floatnumber s =
     (let mp = takeWhile (\<lambda>c. \<not> is_e c) s; rest = dropWhile (\<lambda>c. \<not> is_e c) s
      in case parse_number mp of
           None \<Rightarrow> None
         | Some q \<Rightarrow>
             (if rest = [] then Some q
              else (case parse_exponent (tl rest) of
                      None \<Rightarrow> None
                    | Some e \<Rightarrow> Some (q * pow10 e))))"

definition float_of_str :: "string \<Rightarrow> exn + pyfloat" where
  "float_of_str s =
     (case split_sign (numeric_strip s) of
        (neg, body) \<Rightarrow>
          (let l = map lower body
           in if l = ''inf'' \<or> l = ''infinity'' then Inr (if neg then NegInf else PosInf)
              else if l = ''nan'' then Inr NaN
              else (case parse_floatnumber body of
                      None \<Rightarrow> Inl ValueError
                    | Some q \<Rightarrow> Inr (round_binary64 (if neg then - q else q)))))"

text \<open>\<open>float(n)\<close> for an \<open>int\<close> raises \<open>OverflowError\<close> where a string would give infinity.\<close>

definition float_of_int :: "int \<Rightarrow> exn + pyfloat" where
  "float_of_int n =
     (if \<bar>n\<bar> \<le> 2 ^ 53 then Inr (Finite (of_int n))
      else (case round_binary64 (of_int n) of
              Finite q \<Rightarrow> Inr (Finite q)
            | _ \<Rightarrow> Inl OverflowError))"

fun py_float :: "pyval \<Rightarrow> exn + pyfloat" where
  "py_float PNone = Inl TypeError"
| "py_float (PInt n) = float_of_int n"
| "py_float (PFloat f) = Inr f"
| "py_float (PStr s) = float_of_str s"

text \<open>\<open>int(f)\<close> for a float truncates towards zero.\<close>

definition trunc :: "rat \<Rightarrow> int" where
  "trunc q = (if 0 \<le> q then \<lfloor>q\<rfloor> else \<lceil>q\<rceil>)"

fun int_of_float :: "pyfloat \<Rightarrow> exn + int" where
  "int_of_float (Finite q) = Inr (trunc q)"
| "int_of_float NaN = Inl ValueError"
| "int_of_float PosInf = Inl OverflowError"
| "int_of_float NegInf = Inl OverflowError"

fun py_int :: "pyval \<Rightarrow> exn + int" where
  "py_int PNone = Inl TypeError"
| "py_int (PInt n) = Inr n"
| "py_int (PFloat f) = int_of_float f"
| "py_int (PStr s) = int_of_str s"

text \<open>\<open>x.strip()\<close> on a value that may be \<open>None\<close>.\<close>

fun str_strip :: "string option \<Rightarrow> exn + string" where
  "str_strip None = Inl AttributeError"
| "str_strip (Some s) = Inr (strip s)"

section \<open>The database\<close>

text \<open>
  The two tables of \<open>bus_booking.db\<close>, rows in rowid order. Rows are never deleted, so
  \<open>AUTOINCREMENT\<close> hands out the largest rowid plus one.
\<close>

record bus =
  bus_rowid :: nat
  bus_name :: string
  from_city :: string
  to_city :: string
  total_seats :: int

record ticket =
  ticket_rowid :: nat
  passenger_name :: string
  bus_id :: nat
  travel_date :: string
  seat_number :: int

record store =
  buses :: "bus list"
  tickets :: "ticket list"

definition empty_store :: store where
  "empty_store = \<lparr>buses = [], tickets = []\<rparr>"

definition next_rowid :: "nat list \<Rightarrow> nat" where
  "next_rowid ids = Suc (fold max ids 0)"

definition fits_int64 :: "int \<Rightarrow> bool" where
  "fits_int64 n = (- (2 ^ 63) \<le> n \<and> n \<le> 2 ^ 63 - 1)"

text \<open>
  \<open>INSERT INTO buses\<close>: binding an integer outside 64 bits raises \<open>OverflowError\<close>;
  \<open>bus_name UNIQUE\<close> and \<open>CHECK(total_seats > 0)\<close> raise \<open>IntegrityError\<close>.
\<close>

definition insert_bus :: "store \<Rightarrow> string \<Rightarrow> string \<Rightarrow> string \<Rightarrow> int \<Rightarrow> exn + store" where
  "insert_bus st n f t seats =
     (if \<not> fits_int64 seats then Inl OverflowError
      else if n \<in> set (map bus_name (buses st)) \<or> \<not> 0 < seats then Inl IntegrityError
      else Inr (st\<lparr>buses := buses st @
                  [\<lparr>bus_rowid = next_rowid (map bus_rowid (buses st)), bus_name = n,
                    from_city = f, to_city = t, total_seats = seats\<rparr>]\<rparr>))"

text \<open>The key of \<open>UNIQUE(bus_id, travel_date, seat_number)\<close>.\<close>

definition ticket_key :: "ticket \<Rightarrow> nat \<times> string \<times> int" where
  "ticket_key t = (bus_id t, travel_date t, seat_number t)"

text \<open>
  \<open>INSERT INTO tickets\<close>. The seat bound here lies between 1 and a stored \<open>INTEGER\<close>, so
  binding it cannot overflow; the \<open>UNIQUE\<close> constraint raises \<open>IntegrityError\<close>.
\<close>

definition insert_ticket :: "store \<Rightarrow> string \<Rightarrow> nat \<Rightarrow> string \<Rightarrow> int \<Rightarrow> exn + store" where
  "insert_ticket st p b d seat =
     (if (b, d, seat) \<in> set (map ticket_key (tickets st)) then Inl IntegrityError
      else Inr (st\<lparr>tickets := tickets st @
                  [\<lparr>ticket_rowid = next_rowid (map ticket_rowid (tickets st)),
                    passenger_name = p, bus_id = b, travel_date = d, seat_number = seat\<rparr>]\<rparr>))"

text \<open>\<open>SELECT id, total_seats FROM buses WHERE bus_name = ?\<close> with \<open>fetchone()\<close>.\<close>

definition find_by_name :: "store \<Rightarrow> string \<Rightarrow> bus option" where
  "find_by_name st n = find (\<lambda>b. bus_name b = n) (buses st)"

section \<open>\<open>add_bus\<close>\<close>

text \<open>One constructor for each string the function returns.\<close>

datatype add_msg =
    AddAllFieldsRequired
  | SeatsNotPositive
  | BusAdded "string option" int
  | SeatsNotValidNumber
  | BusNameExists

text \<open>The body of the \<open>try\<close>: an exception leaves it as \<open>Inl\<close>.\<close>

definition add_bus_try ::
  "store \<Rightarrow> string option \<Rightarrow> string option \<Rightarrow> string option \<Rightarrow> pyval \<Rightarrow> exn + add_msg \<times> store"
where
  "add_bus_try st bname fcity tcity tseats =
     (case py_float tseats of
        Inl e \<Rightarrow> Inl e
      | Inr fl \<Rightarrow>
     (case int_of_float fl of
        Inl e \<Rightarrow> Inl e
      | Inr seats \<Rightarrow>
          if seats \<le> 0 then Inr (SeatsNotPositive, st)
          else
     (case str_strip bname of
        Inl e \<Rightarrow> Inl e
      | Inr n \<Rightarrow>
     (case str_strip fcity of
        Inl e \<Rightarrow> Inl e
      | Inr f \<Rightarrow>
     (case str_strip tcity of
        Inl e \<Rightarrow> Inl e
      | Inr t \<Rightarrow>
     (case insert_bus st n f t seats of
        Inl e \<Rightarrow> Inl e
      | Inr st' \<Rightarrow> Inr (BusAdded bname seats, st')))))))"

text \<open>The two \<open>except\<close> clauses; any other exception leaves the function.\<close>

fun add_bus_except :: "exn \<Rightarrow> exn + add_msg" where
  "add_bus_except ValueError = Inr SeatsNotValidNumber"
| "add_bus_except TypeError = Inr SeatsNotValidNumber"
| "add_bus_except IntegrityError = Inr BusNameExists"
| "add_bus_except e = Inl e"

definition add_bus ::
  "store \<Rightarrow> string option \<Rightarrow> string option \<Rightarrow> string option \<Rightarrow> pyval \<Rightarrow> (exn + add_msg) \<times> store"
where
  "add_bus st bname fcity tcity tseats =
     (if \<not> (truthy_str bname \<and> truthy_str fcity \<and> truthy_str tcity)
      then (Inr AddAllFieldsRequired, st)
      else (case add_bus_try st bname fcity tcity tseats of
              Inl e \<Rightarrow> (add_bus_except e, st)
            | Inr (m, st') \<Rightarrow> (Inr m, st')))"

section \<open>\<open>book_ticket\<close>\<close>

datatype book_msg =
    BookAllFieldsRequired
  | SeatNotInteger
  | BusNotFound
  | SeatOutOfRange int
  | TicketBooked "string option" "string option" int
  | SeatAlreadyBooked

definition book_ticket ::
  "store \<Rightarrow> string option \<Rightarrow> string option \<Rightarrow> string option \<Rightarrow> pyval \<Rightarrow> (exn + book_msg) \<times> store"
where
  "book_ticket st pname bname tdate seat_no =
     (if \<not> (truthy_str pname \<and> truthy_str bname \<and> truthy_str tdate \<and> truthy seat_no)
      then (Inr BookAllFieldsRequired, st)
      else
     (case py_int seat_no of
        Inl e \<Rightarrow> (if e = ValueError then (Inr SeatNotInteger, st) else (Inl e, st))
      | Inr seat \<Rightarrow>
     (case bname of
        None \<Rightarrow> (Inr BusNotFound, st)
      | Some bn \<Rightarrow>
     (case find_by_name st bn of
        None \<Rightarrow> (Inr BusNotFound, st)
      | Some b \<Rightarrow>
          if \<not> (1 \<le> seat \<and> seat \<le> total_seats b) then (Inr (SeatOutOfRange (total_seats b)), st)
          else
     (case str_strip pname of
        Inl e \<Rightarrow> (Inl e, st)
      | Inr p \<Rightarrow>
     (case str_strip tdate of
        Inl e \<Rightarrow> (Inl e, st)
      | Inr d \<Rightarrow>
     (case insert_ticket st p (bus_rowid b) d seat of
        Inl e \<Rightarrow> (if e = IntegrityError then (Inr SeatAlreadyBooked, st) else (Inl e, st))
      | Inr st' \<Rightarrow> (Inr (TicketBooked bname tdate seat), st'))))))))"

section \<open>\<open>view_bookings\<close>\<close>

text \<open>A row of the query: ticket id, passenger, bus name, travel date, seat.\<close>

type_synonym booking_row = "nat \<times> string \<times> string \<times> string \<times> int"

definition join_rows :: "store \<Rightarrow> booking_row list" where
  "join_rows st =
     concat (map (\<lambda>t. map (\<lambda>b. (ticket_rowid t, passenger_name t, bus_name b,
                                  travel_date t, seat_number t))
                          (filter (\<lambda>b. bus_id t = bus_rowid b) (buses st)))
                 (tickets st))"

text \<open>
  \<open>ORDER BY t.travel_date, b.bus_name, t.seat_number\<close>: text compares code point by code
  point, a prefix first; integers compare by value.
\<close>

definition order_key :: "booking_row \<Rightarrow> string \<times> string \<times> int" where
  "order_key r = (case r of (i, p, n, d, s) \<Rightarrow> (d, n, s))"

definition booking_rows :: "store \<Rightarrow> booking_row list" where
  "booking_rows st = sort_key order_key (join_rows st)"

datatype bookings_text = NoBookingsYet | BookingLines "booking_row list"

definition view_bookings :: "store \<Rightarrow> bookings_text" where
  "view_bookings st =
     (let rows = booking_rows st in if rows = [] then NoBookingsYet else BookingLines rows)"

section \<open>The error kinds of the specification\<close>

datatype error_kind = ValidationError | DuplicateNameError | NotFoundError | ConflictError


fun book_kind :: "book_msg \<Rightarrow> error_kind option" where
  "book_kind BookAllFieldsRequired = Some ValidationError"
| "book_kind SeatNotInteger = Some ValidationError"
| "book_kind (SeatOutOfRange c) = Some ValidationError"
| "book_kind BusNotFound = Some NotFoundError"
| "book_kind SeatAlreadyBooked = Some ConflictError"
| "book_kind (TicketBooked b d s) = None"


definition book_error :: "exn + book_msg \<Rightarrow> error_kind option" where
  "book_error r = (case r of Inl e \<Rightarrow> None | Inr m \<Rightarrow> book_kind m)"

section \<open>Sequences of calls\<close>

text \<open>The interface runs one handler at a time; a request is one click with its inputs.\<close>

datatype request =
    AddBus "string option" "string option" "string option" pyval
  | BookTicket "string option" "string option" "string option" pyval

fun handle :: "store \<Rightarrow> request \<Rightarrow> store" where
  "handle st (AddBus bname fcity tcity tseats) = snd (add_bus st bname fcity tcity tseats)"
| "handle st (BookTicket pname bname tdate seat_no) = snd (book_ticket st pname bname tdate seat_no)"

definition run :: "request list \<Rightarrow> store \<Rightarrow> store" where
  "run rs st = foldl handle st rs"

section \<open>Notions used in the statements\<close>

text \<open>The three-key order of \<open>ORDER BY\<close>, written out on rows.\<close>

definition row_le :: "booking_row \<Rightarrow> booking_row \<Rightarrow> bool" where
  "row_le r1 r2 =
     (case r1 of (i1, p1, n1, d1, s1) \<Rightarrow>
      case r2 of (i2, p2, n2, d2, s2) \<Rightarrow>
        d1 < d2 \<or> (d1 = d2 \<and> (n1 < n2 \<or> (n1 = n2 \<and> s1 \<le> s2))))"

text \<open>
  The finite values of a Python float: an integer below \<open>2^53\<close> in magnitude times a power
  of two within the exponent range of binary64.
\<close>

definition is_binary64 :: "rat \<Rightarrow> bool" where
  "is_binary64 q \<longleftrightarrow>
     (\<exists>m e. \<bar>m\<bar> < 2 ^ 53 \<and> - 1074 \<le> e \<and> e \<le> 971 \<and> q = of_int m * pow2 e)"

text \<open>The database after the scenario's first step: one bus of forty seats, no ticket.\<close>

definition express_store :: store where
  "express_store =
     \<lparr>buses = [\<lparr>bus_rowid = 1, bus_name = ''Express1'', from_city = ''CityA'',
                 to_city = ''CityB'', total_seats = 40\<rparr>],
      tickets = []\<rparr>"

text \<open>The rows a result of \<open>view_bookings\<close> shows, one per line.\<close>

definition rows_of :: "bookings_text \<Rightarrow> booking_row list" where
  "rows_of v = (case v of NoBookingsYet \<Rightarrow> [] | BookingLines rs \<Rightarrow> rs)"

text \<open>The row the query selects for a ticket and a bus.\<close>

definition booking_row_of :: "ticket \<Rightarrow> bus \<Rightarrow> booking_row" where
  "booking_row_of t b =
     (ticket_rowid t, passenger_name t, bus_name b, travel_date t, seat_number t)"

text \<open>The bus a ticket refers to: the row of \<open>buses\<close> whose id is the ticket's \<open>bus_id\<close>.\<close>

definition bus_of :: "store \<Rightarrow> ticket \<Rightarrow> bus option" where
  "bus_of st t = find (\<lambda>b. bus_rowid b = bus_id t) (buses st)"

text \<open>Bus ids are distinct and every ticket refers to a stored bus.\<close>

definition refs_ok :: "store \<Rightarrow> bool" where
  "refs_ok st \<longleftrightarrow> distinct (map bus_rowid (buses st)) \<and>
     (\<forall>t \<in> set (tickets st). bus_id t \<in> set (map bus_rowid (buses st)))"


text \<open>
  Two buses and four bookings, made in an order that is not the display order, and the
  database they leave.
\<close>

definition sample_requests :: "request list" where
  "sample_requests =
     [AddBus (Some ''Express1'') (Some ''CityA'') (Some ''CityB'') (PInt 40),
      AddBus (Some ''CityLink'') (Some ''CityB'') (Some ''CityC'') (PInt 20),
      BookTicket (Some ''Alice'') (Some ''Express1'') (Some ''2024-05-01'') (PInt 5),
      BookTicket (Some ''Bob'') (Some ''CityLink'') (Some ''2024-05-01'') (PInt 9),
      BookTicket (Some ''Carol'') (Some ''Express1'') (Some ''2024-04-30'') (PInt 7),
      BookTicket (Some ''Dan'') (Some ''Express1'') (Some ''2024-05-01'') (PInt 2)]"

definition sample_store :: store where
  "sample_store =
     \<lparr>buses = [\<lparr>bus_rowid = 1, bus_name = ''Express1'', from_city = ''CityA'',
                 to_city = ''CityB'', total_seats = 40\<rparr>,
               \<lparr>bus_rowid = 2, bus_name = ''CityLink'', from_city = ''CityB'',
                 to_city = ''CityC'', total_seats = 20\<rparr>],
      tickets = [\<lparr>ticket_rowid = 1, passenger_name = ''Alice'', bus_id = 1,
                   travel_date = ''2024-05-01'', seat_number = 5\<rparr>,
                 \<lparr>ticket_rowid = 2, passenger_name = ''Bob'', bus_id = 2,
                   travel_date = ''2024-05-01'', seat_number = 9\<rparr>,
                 \<lparr>ticket_rowid = 3, passenger_name = ''Carol'', bus_id = 1,
                   travel_date = ''2024-04-30'', seat_number = 7\<rparr>,
                 \<lparr>ticket_rowid = 4, passenger_name = ''Dan'', bus_id = 1,
                   travel_date = ''2024-05-01'', seat_number = 2\<rparr>]\<rparr>"

text \<open>The database after \<open>add_bus\<close> was given a name of three blanks.\<close>

definition blank_store :: store where
  "blank_store =
     \<lparr>buses = [\<lparr>bus_rowid = 1, bus_name = [], from_city = ''CityA'', to_city = ''CityB'',
                 total_seats = 40\<rparr>],
      tickets = []\<rparr>"

section \<open>Facts about the two handlers\<close>

lemma add_bus_except_not_added: "add_bus_except e \<noteq> Inr (BusAdded n s)"
  by (cases e) simp_all

text \<open>A call of \<open>add_bus\<close> either leaves the store as it is or appends exactly one row.\<close>

lemma add_bus_cases:
  assumes "add_bus st a b c d = (r, st')"
  shows "(st' = st \<and> (\<forall>s. r \<noteq> Inr (BusAdded a s))) \<or>
         (\<exists>n f t fl seats. a = Some n \<and> b = Some f \<and> c = Some t \<and> n \<noteq> [] \<and> f \<noteq> [] \<and> t \<noteq> [] \<and>
            py_float d = Inr fl \<and> int_of_float fl = Inr seats \<and>
            0 < seats \<and> fits_int64 seats \<and> strip n \<notin> set (map bus_name (buses st)) \<and>
            r = Inr (BusAdded a seats) \<and>
            st' = st\<lparr>buses := buses st @
                  [\<lparr>bus_rowid = next_rowid (map bus_rowid (buses st)), bus_name = strip n,
                    from_city = strip f, to_city = strip t, total_seats = seats\<rparr>]\<rparr>)"
  using assms
  apply (cases a; cases b; cases c)
  apply (auto simp: add_bus_def add_bus_try_def truthy_str_def insert_bus_def add_bus_except_not_added
        split: sum.splits if_splits)
  done

lemma add_bus_success:
  assumes "n \<noteq> []" "f \<noteq> []" "t \<noteq> []" "py_float d = Inr fl" "int_of_float fl = Inr seats"
    "0 < seats" "fits_int64 seats" "strip n \<notin> set (map bus_name (buses st))"
  shows "add_bus st (Some n) (Some f) (Some t) d =
           (Inr (BusAdded (Some n) seats),
            st\<lparr>buses := buses st @
                  [\<lparr>bus_rowid = next_rowid (map bus_rowid (buses st)), bus_name = strip n,
                    from_city = strip f, to_city = strip t, total_seats = seats\<rparr>]\<rparr>)"
  using assms by (simp add: add_bus_def add_bus_try_def truthy_str_def insert_bus_def)

text \<open>The same for \<open>book_ticket\<close>.\<close>

lemma book_ticket_cases:
  assumes "book_ticket st p bn d sn = (r, st')"
  shows "(st' = st \<and> (\<forall>s. r \<noteq> Inr (TicketBooked bn d s))) \<or>
         (\<exists>pn n dn seat b. p = Some pn \<and> bn = Some n \<and> d = Some dn \<and>
            py_int sn = Inr seat \<and> find_by_name st n = Some b \<and>
            1 \<le> seat \<and> seat \<le> total_seats b \<and>
            (bus_rowid b, strip dn, seat) \<notin> set (map ticket_key (tickets st)) \<and>
            r = Inr (TicketBooked bn d seat) \<and>
            st' = st\<lparr>tickets := tickets st @
                  [\<lparr>ticket_rowid = next_rowid (map ticket_rowid (tickets st)),
                    passenger_name = strip pn, bus_id = bus_rowid b, travel_date = strip dn,
                    seat_number = seat\<rparr>]\<rparr>)"
  using assms
  apply (cases p; cases bn; cases d)
  apply (auto simp: book_ticket_def truthy_str_def insert_ticket_def
        split: sum.splits if_splits option.splits)
  done

lemma int_of_str_empty: "int_of_str [] = Inl ValueError"
  by (simp add: int_of_str_def numeric_strip_def digitpart_def)

lemma trunc_zero: "trunc 0 = 0"
  by (simp add: trunc_def)

text \<open>A value that converts to a non-zero integer is truthy.\<close>

lemma py_int_truthy: "py_int v = Inr n \<Longrightarrow> n \<noteq> 0 \<Longrightarrow> truthy v"
  apply (cases v)
  apply (auto simp: int_of_str_empty trunc_zero)
  subgoal for f by (cases f) (auto simp: trunc_zero)
  done

lemma book_ticket_success:
  assumes "pn \<noteq> []" "n \<noteq> []" "dn \<noteq> []" "py_int sn = Inr seat" "find_by_name st n = Some b"
    "1 \<le> seat" "seat \<le> total_seats b"
    "(bus_rowid b, strip dn, seat) \<notin> set (map ticket_key (tickets st))"
  shows "book_ticket st (Some pn) (Some n) (Some dn) sn =
           (Inr (TicketBooked (Some n) (Some dn) seat),
            st\<lparr>tickets := tickets st @
                  [\<lparr>ticket_rowid = next_rowid (map ticket_rowid (tickets st)),
                    passenger_name = strip pn, bus_id = bus_rowid b, travel_date = strip dn,
                    seat_number = seat\<rparr>]\<rparr>)"
proof -
  have "truthy sn" using assms(4,6) by (intro py_int_truthy[of sn seat]) auto
  then show ?thesis using assms
    by (simp add: book_ticket_def truthy_str_def insert_ticket_def)
qed

lemma book_ticket_conflict:
  assumes "pn \<noteq> []" "n \<noteq> []" "dn \<noteq> []" "py_int sn = Inr seat" "find_by_name st n = Some b"
    "1 \<le> seat" "seat \<le> total_seats b"
    "(bus_rowid b, strip dn, seat) \<in> set (map ticket_key (tickets st))"
  shows "book_ticket st (Some pn) (Some n) (Some dn) sn = (Inr SeatAlreadyBooked, st)"
proof -
  have "truthy sn" using assms(4,6) by (intro py_int_truthy[of sn seat]) auto
  then show ?thesis using assms
    by (simp add: book_ticket_def truthy_str_def insert_ticket_def)
qed

section \<open>Missing capacity\<close>

lemma float_of_str_empty: "float_of_str [] = Inl ValueError"
  by (simp add: float_of_str_def numeric_strip_def parse_floatnumber_def parse_number_def
      digitpart_def)

text \<open>
  Claim C10. When \<open>add_bus\<close> gets a non-empty name, origin and destination and a capacity
  that is \<open>None\<close> or the empty string, it returns "Total seats must be a valid number" and
  not "All fields are required", and the store is unchanged: the presence check does not
  look at the capacity, and \<open>float(None)\<close> raises \<open>TypeError\<close>, \<open>float('')\<close> raises
  \<open>ValueError\<close>, both caught.
\<close>

theorem add_bus_missing_capacity:
  assumes "truthy_str bname" "truthy_str fcity" "truthy_str tcity"
    and "tseats = PNone \<or> tseats = PStr []"
  shows "add_bus st bname fcity tcity tseats = (Inr SeatsNotValidNumber, st)
         \<and> fst (add_bus st bname fcity tcity tseats) \<noteq> Inr AddAllFieldsRequired"
proof -
  have "add_bus_try st bname fcity tcity tseats = Inl TypeError
           \<or> add_bus_try st bname fcity tcity tseats = Inl ValueError"
    using assms(4) by (auto simp: add_bus_try_def float_of_str_empty)
  then show ?thesis using assms(1-3) by (auto simp: add_bus_def)
qed

theorem add_bus_missing_capacity_witness:
  "add_bus empty_store (Some ''Express1'') (Some ''CityA'') (Some ''CityB'') PNone
     = (Inr SeatsNotValidNumber, empty_store)
   \<and> add_bus empty_store (Some ''Express1'') (Some ''CityA'') (Some ''CityB'') (PStr [])
     = (Inr SeatsNotValidNumber, empty_store)"
  using add_bus_missing_capacity [of "Some ''Express1''" "Some ''CityA''" "Some ''CityB''" PNone empty_store]
    add_bus_missing_capacity [of "Some ''Express1''" "Some ''CityA''" "Some ''CityB''" "PStr []" empty_store]
  by (simp add: truthy_str_def)

section \<open>Blank fields and fractional seats\<close>

text \<open>
  Claim C4 says that \<open>add_bus\<close> rejects a name that is empty after trimming. The presence
  check runs on the untrimmed text and the trimming happens only when the row is written:
  a name of three blanks passes the check and a bus with the empty name is stored.
\<close>

theorem add_bus_blank_name_stored:
  "add_bus empty_store (Some ''   '') (Some ''CityA'') (Some ''CityB'') (PInt 40) =
     (Inr (BusAdded (Some ''   '') 40),
      \<lparr>buses = [\<lparr>bus_rowid = 1, bus_name = [], from_city = ''CityA'', to_city = ''CityB'',
                  total_seats = 40\<rparr>],
       tickets = []\<rparr>)"
  by (simp add: add_bus_def add_bus_try_def truthy_str_def float_of_int_def trunc_def
      insert_bus_def fits_int64_def empty_store_def strip_def py_isspace_def next_rowid_def)

text \<open>
  Claim C5 says that \<open>book_ticket\<close> rejects a seat number that is not an integer, such as
  3.5. \<open>int(3.5)\<close> does not raise: it truncates, and seat 3 is booked.
\<close>

theorem book_ticket_fraction_truncated:
  "book_ticket
      \<lparr>buses = [\<lparr>bus_rowid = 1, bus_name = ''Express1'', from_city = ''CityA'',
                  to_city = ''CityB'', total_seats = 40\<rparr>],
       tickets = []\<rparr>
      (Some ''Bob'') (Some ''Express1'') (Some ''2024-05-01'') (PFloat (Finite (7 / 2))) =
     (Inr (TicketBooked (Some ''Express1'') (Some ''2024-05-01'') 3),
      \<lparr>buses = [\<lparr>bus_rowid = 1, bus_name = ''Express1'', from_city = ''CityA'',
                  to_city = ''CityB'', total_seats = 40\<rparr>],
       tickets = [\<lparr>ticket_rowid = 1, passenger_name = ''Bob'', bus_id = 1,
                    travel_date = ''2024-05-01'', seat_number = 3\<rparr>]\<rparr>)"
  by (simp add: book_ticket_def truthy_str_def trunc_def find_by_name_def insert_ticket_def
      strip_def py_isspace_def next_rowid_def ticket_key_def floor_eq_iff)

section \<open>Two bookings of one seat\<close>

lemma find_by_name_tickets_update [simp]:
  "find_by_name (st\<lparr>tickets := ts\<rparr>) n = find_by_name st n"
  by (simp add: find_by_name_def)

text \<open>
  Two calls of \<open>book_ticket\<close> with the same bus name, travel date and seat number, for a
  bus stored under a non-empty name, with the seat in range and not yet held, passenger
  and date present: the call that comes first succeeds and the other is turned down with
  "That seat is already booked on that date" (a \<open>ConflictError\<close>), leaving the store as the
  first call left it; this holds for either order of the two callers.
\<close>

theorem double_booking_second_rejected:
  assumes bus: "find_by_name st n = Some b" "n \<noteq> []"
    and seat: "py_int sn = Inr seat" "1 \<le> seat" "seat \<le> total_seats b"
    and rest: "dn \<noteq> []" "p1 \<noteq> []" "p2 \<noteq> []"
    and free: "(bus_rowid b, strip dn, seat) \<notin> set (map ticket_key (tickets st))"
  shows "fst (book_ticket st (Some p1) (Some n) (Some dn) sn)
           = Inr (TicketBooked (Some n) (Some dn) seat)
       \<and> book_ticket (snd (book_ticket st (Some p1) (Some n) (Some dn) sn))
             (Some p2) (Some n) (Some dn) sn
           = (Inr SeatAlreadyBooked, snd (book_ticket st (Some p1) (Some n) (Some dn) sn))
       \<and> book_error (Inr SeatAlreadyBooked) = Some ConflictError
       \<and> fst (book_ticket st (Some p2) (Some n) (Some dn) sn)
           = Inr (TicketBooked (Some n) (Some dn) seat)
       \<and> book_ticket (snd (book_ticket st (Some p2) (Some n) (Some dn) sn))
             (Some p1) (Some n) (Some dn) sn
           = (Inr SeatAlreadyBooked, snd (book_ticket st (Some p2) (Some n) (Some dn) sn))"
proof -
  have one: "book_ticket st' (Some q') (Some n) (Some dn) sn = (Inr SeatAlreadyBooked, st')"
    if "book_ticket st (Some q) (Some n) (Some dn) sn = (r, st')" "q \<noteq> []" "q' \<noteq> []"
      "r = Inr (TicketBooked (Some n) (Some dn) seat)"
      "st' = st\<lparr>tickets := tickets st @
                  [\<lparr>ticket_rowid = next_rowid (map ticket_rowid (tickets st)),
                    passenger_name = strip q, bus_id = bus_rowid b, travel_date = strip dn,
                    seat_number = seat\<rparr>]\<rparr>" for q q' r st'
  proof -
    have "find_by_name st' n = Some b" using that(5) bus(1) by simp
    moreover have "(bus_rowid b, strip dn, seat) \<in> set (map ticket_key (tickets st'))"
      using that(5) by (simp add: ticket_key_def)
    ultimately show ?thesis
      using book_ticket_conflict[of q' n dn sn seat st' b] that(3) bus(2) seat rest(1) by simp
  qed
  have first: "book_ticket st (Some q) (Some n) (Some dn) sn =
           (Inr (TicketBooked (Some n) (Some dn) seat),
            st\<lparr>tickets := tickets st @
                  [\<lparr>ticket_rowid = next_rowid (map ticket_rowid (tickets st)),
                    passenger_name = strip q, bus_id = bus_rowid b, travel_date = strip dn,
                    seat_number = seat\<rparr>]\<rparr>)" if "q \<noteq> []" for q
    using book_ticket_success[of q n dn sn seat st b] that bus seat rest(1) free by simp
  have a: "fst (book_ticket st (Some p1) (Some n) (Some dn) sn)
           = Inr (TicketBooked (Some n) (Some dn) seat)"
    using first[OF rest(2)] by simp
  have b: "fst (book_ticket st (Some p2) (Some n) (Some dn) sn)
           = Inr (TicketBooked (Some n) (Some dn) seat)"
    using first[OF rest(3)] by simp
  have c: "book_ticket (snd (book_ticket st (Some p1) (Some n) (Some dn) sn))
             (Some p2) (Some n) (Some dn) sn
           = (Inr SeatAlreadyBooked, snd (book_ticket st (Some p1) (Some n) (Some dn) sn))"
    using one[OF first[OF rest(2)] rest(2) rest(3)] first[OF rest(2)] by simp
  have d: "book_ticket (snd (book_ticket st (Some p2) (Some n) (Some dn) sn))
             (Some p1) (Some n) (Some dn) sn
           = (Inr SeatAlreadyBooked, snd (book_ticket st (Some p2) (Some n) (Some dn) sn))"
    using one[OF first[OF rest(3)] rest(3) rest(2)] first[OF rest(3)] by simp
  have e: "book_error (Inr SeatAlreadyBooked) = Some ConflictError"
    by (simp add: book_error_def)
  show ?thesis using a b c d e by blast
qed

theorem double_booking_second_rejected_witness:
  "fst (book_ticket express_store (Some ''Alice'') (Some ''Express1'') (Some ''2024-05-01'') (PInt 5))
     = Inr (TicketBooked (Some ''Express1'') (Some ''2024-05-01'') 5)
   \<and> fst (book_ticket
        (snd (book_ticket express_store (Some ''Alice'') (Some ''Express1'') (Some ''2024-05-01'') (PInt 5)))
        (Some ''Bob'') (Some ''Express1'') (Some ''2024-05-01'') (PInt 5))
     = Inr SeatAlreadyBooked"
  using double_booking_second_rejected [of express_store "''Express1''"
      "\<lparr>bus_rowid = 1, bus_name = ''Express1'', from_city = ''CityA'',
                 to_city = ''CityB'', total_seats = 40\<rparr>" "PInt 5" 5 "''2024-05-01''" "''Alice''" "''Bob''"]
  by (simp add: express_store_def find_by_name_def)

text \<open>
  Claim C1 says that of two calls with the same bus name, date and seat number on an
  existing bus with the seat in range, the first succeeds. A bus can exist that no call can
  name: \<open>add_bus\<close> given three blanks as the name stores a bus whose name is empty, and
  \<open>book_ticket\<close> turns an empty bus name down as a missing field, so on that bus the first
  call fails like the second, and the name as it was typed is not found.
\<close>

theorem double_booking_blank_named_bus:
  "run [AddBus (Some ''   '') (Some ''CityA'') (Some ''CityB'') (PInt 40)] empty_store = blank_store
   \<and> find_by_name blank_store [] =
       Some \<lparr>bus_rowid = 1, bus_name = [], from_city = ''CityA'', to_city = ''CityB'',
              total_seats = 40\<rparr>
   \<and> book_ticket blank_store (Some ''Alice'') (Some []) (Some ''2024-05-01'') (PInt 5)
       = (Inr BookAllFieldsRequired, blank_store)
   \<and> book_ticket blank_store (Some ''Bob'') (Some []) (Some ''2024-05-01'') (PInt 5)
       = (Inr BookAllFieldsRequired, blank_store)
   \<and> book_ticket blank_store (Some ''Alice'') (Some ''   '') (Some ''2024-05-01'') (PInt 5)
       = (Inr BusNotFound, blank_store)"
  by (simp add: run_def blank_store_def add_bus_def add_bus_try_def truthy_str_def float_of_int_def
      trunc_def insert_bus_def fits_int64_def empty_store_def strip_def py_isspace_def
      next_rowid_def book_ticket_def find_by_name_def)

section \<open>Seat numbers and the capacity\<close>

text \<open>
  For a bus of capacity \<open>C\<close> (positive) that is stored under a non-empty name, a present
  passenger and date, and a free seat, \<open>book_ticket\<close> succeeds for every seat number from 1
  to \<open>C\<close>; seat number 0 and seat number \<open>C + 1\<close> are turned down with a
  \<open>ValidationError\<close> (0 by the presence check, since 0 is falsy, \<open>C + 1\<close> by the range
  check), and the store is unchanged.
\<close>

theorem seat_range:
  assumes bus: "find_by_name st n = Some b" "n \<noteq> []" "0 < total_seats b"
    and rest: "pn \<noteq> []" "dn \<noteq> []"
  shows "(\<forall>k. 1 \<le> k \<and> k \<le> total_seats b
              \<and> (bus_rowid b, strip dn, k) \<notin> set (map ticket_key (tickets st)) \<longrightarrow>
            book_ticket st (Some pn) (Some n) (Some dn) (PInt k) =
              (Inr (TicketBooked (Some n) (Some dn) k),
               st\<lparr>tickets := tickets st @
                  [\<lparr>ticket_rowid = next_rowid (map ticket_rowid (tickets st)),
                    passenger_name = strip pn, bus_id = bus_rowid b, travel_date = strip dn,
                    seat_number = k\<rparr>]\<rparr>))
       \<and> book_ticket st (Some pn) (Some n) (Some dn) (PInt 0) = (Inr BookAllFieldsRequired, st)
       \<and> book_error (Inr BookAllFieldsRequired) = Some ValidationError
       \<and> book_ticket st (Some pn) (Some n) (Some dn) (PInt (total_seats b + 1))
           = (Inr (SeatOutOfRange (total_seats b)), st)
       \<and> book_error (Inr (SeatOutOfRange (total_seats b))) = Some ValidationError"
proof -
  have a: "book_ticket st (Some pn) (Some n) (Some dn) (PInt k) =
              (Inr (TicketBooked (Some n) (Some dn) k),
               st\<lparr>tickets := tickets st @
                  [\<lparr>ticket_rowid = next_rowid (map ticket_rowid (tickets st)),
                    passenger_name = strip pn, bus_id = bus_rowid b, travel_date = strip dn,
                    seat_number = k\<rparr>]\<rparr>)"
    if "1 \<le> k" "k \<le> total_seats b"
      "(bus_rowid b, strip dn, k) \<notin> set (map ticket_key (tickets st))" for k
    using book_ticket_success[of pn n dn "PInt k" k st b] that bus rest by simp
  have z: "book_ticket st (Some pn) (Some n) (Some dn) (PInt 0) = (Inr BookAllFieldsRequired, st)"
    by (simp add: book_ticket_def)
  have c: "book_ticket st (Some pn) (Some n) (Some dn) (PInt (total_seats b + 1))
           = (Inr (SeatOutOfRange (total_seats b)), st)"
    using bus rest by (simp add: book_ticket_def truthy_str_def)
  show ?thesis using a z c by (simp add: book_error_def)
qed

theorem seat_range_witness:
  "book_ticket express_store (Some ''Alice'') (Some ''Express1'') (Some ''2024-05-01'') (PInt 40)
     = (Inr (TicketBooked (Some ''Express1'') (Some ''2024-05-01'') 40),
        express_store\<lparr>tickets :=
          [\<lparr>ticket_rowid = 1, passenger_name = ''Alice'', bus_id = 1,
             travel_date = ''2024-05-01'', seat_number = 40\<rparr>]\<rparr>)
   \<and> book_ticket express_store (Some ''Alice'') (Some ''Express1'') (Some ''2024-05-01'') (PInt 0)
     = (Inr BookAllFieldsRequired, express_store)
   \<and> book_ticket express_store (Some ''Alice'') (Some ''Express1'') (Some ''2024-05-01'') (PInt 41)
     = (Inr (SeatOutOfRange 40), express_store)"
proof -
  have s: "strip ''2024-05-01'' = ''2024-05-01''" "strip ''Alice'' = ''Alice''"
    by (simp_all add: strip_def py_isspace_def)
  show ?thesis
    using seat_range [of express_store "''Express1''"
      "\<lparr>bus_rowid = 1, bus_name = ''Express1'', from_city = ''CityA'',
                 to_city = ''CityB'', total_seats = 40\<rparr>" "''Alice''" "''2024-05-01''"]
    by (simp add: express_store_def find_by_name_def s next_rowid_def)
qed

text \<open>
  Claim C3 says that on every bus of capacity \<open>C\<close> every free seat from 1 to \<open>C\<close> can be
  booked. The bus that \<open>add_bus\<close> stores for a name of three blanks has capacity 40 and an
  empty name; no seat of it can be booked, whatever is passed as the bus name: the empty
  name and \<open>None\<close> are missing fields, the three blanks are not found.
\<close>

theorem seat_range_blank_named_bus:
  "run [AddBus (Some ''   '') (Some ''CityA'') (Some ''CityB'') (PInt 40)] empty_store = blank_store
   \<and> map total_seats (buses blank_store) = [40]
   \<and> tickets blank_store = []
   \<and> book_ticket blank_store (Some ''Alice'') (Some []) (Some ''2024-05-01'') (PInt 1)
       = (Inr BookAllFieldsRequired, blank_store)
   \<and> book_ticket blank_store (Some ''Alice'') (Some []) (Some ''2024-05-01'') (PInt 40)
       = (Inr BookAllFieldsRequired, blank_store)
   \<and> book_ticket blank_store (Some ''Alice'') (Some ''   '') (Some ''2024-05-01'') (PInt 1)
       = (Inr BusNotFound, blank_store)
   \<and> book_ticket blank_store (Some ''Alice'') None (Some ''2024-05-01'') (PInt 1)
       = (Inr BookAllFieldsRequired, blank_store)"
  by (simp add: run_def blank_store_def add_bus_def add_bus_try_def truthy_str_def float_of_int_def
      trunc_def insert_bus_def fits_int64_def empty_store_def strip_def py_isspace_def
      next_rowid_def book_ticket_def find_by_name_def)

section \<open>No seat is sold twice\<close>

lemma handle_keeps_distinct:
  assumes "distinct (map ticket_key (tickets st))"
  shows "distinct (map ticket_key (tickets (handle st r)))"
proof (cases r)
  case (AddBus a b c d)
  obtain res st' where eq: "add_bus st a b c d = (res, st')" by (cases "add_bus st a b c d")
  from add_bus_cases[OF eq] have "tickets st' = tickets st" by auto
  then show ?thesis using assms AddBus eq by simp
next
  case (BookTicket p bn d sn)
  obtain res st' where eq: "book_ticket st p bn d sn = (res, st')"
    by (cases "book_ticket st p bn d sn")
  from book_ticket_cases[OF eq] assms have "distinct (map ticket_key (tickets st'))"
    by (auto simp: ticket_key_def)
  then show ?thesis using BookTicket eq by simp
qed

lemma run_keeps_distinct:
  "distinct (map ticket_key (tickets st)) \<Longrightarrow> distinct (map ticket_key (tickets (run rs st)))"
  unfolding run_def
  by (induction rs arbitrary: st) (simp_all add: handle_keeps_distinct)

text \<open>
  Claim C2. In every state reached from the empty database by any sequence of calls of
  \<open>add_bus\<close> and \<open>book_ticket\<close>, no two tickets have the same bus id, travel date and seat
  number, and every single call keeps that property.
\<close>

theorem ticket_keys_unique:
  "distinct (map ticket_key (tickets (run rs empty_store)))
   \<and> (distinct (map ticket_key (tickets st)) \<longrightarrow>
        distinct (map ticket_key (tickets (handle st r))))"
  using run_keeps_distinct[of empty_store rs] handle_keeps_distinct[of st r]
  by (simp add: empty_store_def)

theorem ticket_keys_unique_witness:
  "distinct (map ticket_key (tickets (run
      [AddBus (Some ''Express1'') (Some ''CityA'') (Some ''CityB'') (PInt 40),
       BookTicket (Some ''Alice'') (Some ''Express1'') (Some ''2024-05-01'') (PInt 5),
       BookTicket (Some ''Bob'') (Some ''Express1'') (Some ''2024-05-01'') (PInt 5)]
      empty_store)))
   \<and> tickets (run
      [AddBus (Some ''Express1'') (Some ''CityA'') (Some ''CityB'') (PInt 40),
       BookTicket (Some ''Alice'') (Some ''Express1'') (Some ''2024-05-01'') (PInt 5),
       BookTicket (Some ''Bob'') (Some ''Express1'') (Some ''2024-05-01'') (PInt 5)]
      empty_store)
     = [\<lparr>ticket_rowid = 1, passenger_name = ''Alice'', bus_id = 1,
             travel_date = ''2024-05-01'', seat_number = 5\<rparr>]
   \<and> distinct (map ticket_key (tickets (handle express_store
        (BookTicket (Some ''Alice'') (Some ''Express1'') (Some ''2024-05-01'') (PInt 5)))))"
proof -
  have t: "tickets (run
      [AddBus (Some ''Express1'') (Some ''CityA'') (Some ''CityB'') (PInt 40),
       BookTicket (Some ''Alice'') (Some ''Express1'') (Some ''2024-05-01'') (PInt 5),
       BookTicket (Some ''Bob'') (Some ''Express1'') (Some ''2024-05-01'') (PInt 5)]
      empty_store)
     = [\<lparr>ticket_rowid = 1, passenger_name = ''Alice'', bus_id = 1,
             travel_date = ''2024-05-01'', seat_number = 5\<rparr>]"
    by (simp add: run_def add_bus_def add_bus_try_def truthy_str_def float_of_int_def trunc_def
      insert_bus_def fits_int64_def empty_store_def strip_def py_isspace_def next_rowid_def
      book_ticket_def find_by_name_def insert_ticket_def ticket_key_def)
  have d: "distinct (map ticket_key (tickets express_store))"
    by (simp add: express_store_def)
  show ?thesis
    using ticket_keys_unique [of "[AddBus (Some ''Express1'') (Some ''CityA'') (Some ''CityB'') (PInt 40),
       BookTicket (Some ''Alice'') (Some ''Express1'') (Some ''2024-05-01'') (PInt 5),
       BookTicket (Some ''Bob'') (Some ''Express1'') (Some ''2024-05-01'') (PInt 5)]"
       express_store "BookTicket (Some ''Alice'') (Some ''Express1'') (Some ''2024-05-01'') (PInt 5)"]
      t d by simp
qed

section \<open>Fractional capacity\<close>

text \<open>A float that is not an integer has a negative exponent, so it lies below \<open>2^53\<close>.\<close>

lemma fractional_binary64_small:
  assumes "is_binary64 q" "of_int \<lfloor>q\<rfloor> \<noteq> q"
  shows "\<bar>q\<bar> < 2 ^ 53"
proof -
  from assms(1) obtain m e where m: "\<bar>m\<bar> < 2 ^ 53" and q: "q = of_int m * pow2 e"
    unfolding is_binary64_def by blast
  show ?thesis
  proof (cases "0 \<le> e")
    case True
    then have "q = of_int (m * 2 ^ nat e)" using q by (simp add: pow2_def)
    then have "of_int \<lfloor>q\<rfloor> = q" by (metis floor_of_int)
    with assms(2) show ?thesis by simp
  next
    case False
    then have "q = of_int m / 2 ^ nat (- e)" using q by (simp add: pow2_def)
    then have "\<bar>q\<bar> = \<bar>of_int m\<bar> / 2 ^ nat (- e)" by simp
    also have "\<dots> \<le> \<bar>of_int m\<bar> / 1"
      by (rule divide_left_mono) simp_all
    finally have "\<bar>q\<bar> \<le> \<bar>of_int m\<bar>" by simp
    moreover have "\<bar>(of_int m :: rat)\<bar> < 2 ^ 53"
      using m by (metis of_int_abs of_int_less_numeral_power_cancel_iff)
    ultimately show ?thesis by linarith
  qed
qed

text \<open>
  Claim C6 asks only that the name be unused. The name is compared after trimming: with
  \<open>Express1\<close> stored, the unused name \<open>Express1\<close> with a blank in front is turned down as
  a duplicate, fractional capacity or not.
\<close>

theorem add_bus_untrimmed_name_taken:
  "'' Express1'' \<notin> set (map bus_name (buses express_store))
   \<and> add_bus express_store (Some '' Express1'') (Some ''CityA'') (Some ''CityB'')
        (PFloat (Finite (5 / 2)))
       = (Inr BusNameExists, express_store)"
  by (simp add: express_store_def add_bus_def add_bus_try_def truthy_str_def trunc_def
      insert_bus_def fits_int64_def strip_def py_isspace_def floor_eq_iff)

text \<open>
  Claim C6, amended. Given a non-empty name, origin and destination, a name that is not
  in use after trimming, and a capacity that is a float of at least 1 with a fractional
  part, \<open>add_bus\<close> succeeds and stores the capacity truncated to the integer below it,
  instead of rejecting the input.
\<close>

theorem add_bus_fraction_truncated:
  assumes "n \<noteq> []" "f \<noteq> []" "t \<noteq> []"
    and "strip n \<notin> set (map bus_name (buses st))"
    and "is_binary64 q" "1 \<le> q" "of_int \<lfloor>q\<rfloor> \<noteq> q"
  shows "add_bus st (Some n) (Some f) (Some t) (PFloat (Finite q)) =
           (Inr (BusAdded (Some n) \<lfloor>q\<rfloor>),
            st\<lparr>buses := buses st @
                  [\<lparr>bus_rowid = next_rowid (map bus_rowid (buses st)), bus_name = strip n,
                    from_city = strip f, to_city = strip t, total_seats = \<lfloor>q\<rfloor>\<rparr>]\<rparr>)
         \<and> of_int \<lfloor>q\<rfloor> < q"
proof -
  have "\<bar>q\<bar> < 2 ^ 53" using fractional_binary64_small assms(5,7) by blast
  then have "q < 2 ^ 53" by linarith
  then have "\<lfloor>q\<rfloor> < 2 ^ 53" by (simp add: floor_less_iff)
  then have fit: "fits_int64 \<lfloor>q\<rfloor>" using assms(6) by (simp add: fits_int64_def)
  have pos: "0 < \<lfloor>q\<rfloor>" using assms(6) by simp
  have tr: "int_of_float (Finite q) = Inr \<lfloor>q\<rfloor>" using assms(6) by (simp add: trunc_def)
  have lt: "of_int \<lfloor>q\<rfloor> < q" using assms(7) of_int_floor_le[of q] by linarith
  show ?thesis
    using add_bus_success[of n f t "PFloat (Finite q)" "Finite q" "\<lfloor>q\<rfloor>" st]
      assms(1-4) fit pos tr lt by simp
qed

theorem add_bus_fraction_truncated_witness:
  "add_bus empty_store (Some ''Express1'') (Some ''CityA'') (Some ''CityB'') (PFloat (Finite (5 / 2))) =
     (Inr (BusAdded (Some ''Express1'') 2),
      \<lparr>buses = [\<lparr>bus_rowid = 1, bus_name = ''Express1'', from_city = ''CityA'',
                  to_city = ''CityB'', total_seats = 2\<rparr>],
       tickets = []\<rparr>)"
proof -
  have "(5 / 2 :: rat) = of_int 5 * pow2 (- 1)" by (simp add: pow2_def)
  then have b: "is_binary64 (5 / 2)"
    unfolding is_binary64_def by (intro exI[of _ 5] exI[of _ "- 1"]) simp
  have fl: "\<lfloor>5 / 2 :: rat\<rfloor> = 2" by (simp add: floor_eq_iff)
  have s: "strip ''Express1'' = ''Express1''" "strip ''CityA'' = ''CityA''"
    "strip ''CityB'' = ''CityB''"
    by (simp_all add: strip_def py_isspace_def)
  show ?thesis
    using add_bus_fraction_truncated [of "''Express1''" "''CityA''" "''CityB''" empty_store "5 / 2"] b
    by (simp add: empty_store_def fl s next_rowid_def)
qed

section \<open>The order of the bookings list\<close>

lemma order_key_le_iff: "order_key r1 \<le> order_key r2 \<longleftrightarrow> row_le r1 r2"
  by (cases r1; cases r2) (auto simp: order_key_def row_le_def less_eq_prod_def)

lemma sort_map_sort_key: "map k (sort_key k xs) = sort (map k xs)"
  by (rule properties_for_sort[symmetric]) simp_all

lemma rows_of_view_bookings: "rows_of (view_bookings st) = booking_rows st"
  by (simp add: view_bookings_def rows_of_def Let_def)

text \<open>The join, as the pairs of the product of the two tables that satisfy \<open>ON\<close>.\<close>

lemma join_as_product:
  "concat (map (\<lambda>t. map (\<lambda>b. booking_row_of t b) (filter (\<lambda>b. bus_id t = bus_rowid b) bs)) ts)
   = map (\<lambda>(t, b). booking_row_of t b)
       (filter (\<lambda>(t, b). bus_id t = bus_rowid b) (List.product ts bs))"
  by (induction ts) (simp_all add: filter_map comp_def)

lemma join_rows_product:
  "join_rows st = map (\<lambda>(t, b). booking_row_of t b)
       (filter (\<lambda>(t, b). bus_id t = bus_rowid b) (List.product (tickets st) (buses st)))"
  using join_as_product[of "buses st" "tickets st"]
  by (simp add: join_rows_def booking_row_of_def)

lemma mset_join_rows:
  assumes "mset (tickets st') = mset (tickets st)" "buses st' = buses st"
  shows "mset (join_rows st') = mset (join_rows st)"
proof -
  have "mset (concat (map g xs)) = (\<Sum>x\<in>#mset xs. mset (g x))" for g :: "ticket \<Rightarrow> booking_row list" and xs
    by (induction xs) simp_all
  then show ?thesis using assms by (simp add: join_rows_def)
qed

lemma filter_unique:
  "distinct (map f xs) \<Longrightarrow> k \<in> set (map f xs) \<Longrightarrow>
   \<exists>b. find (\<lambda>x. f x = k) xs = Some b \<and> filter (\<lambda>x. k = f x) xs = [b]"
proof (induction xs)
  case Nil
  then show ?case by simp
next
  case (Cons x xs)
  show ?case
  proof (cases "f x = k")
    case True
    then have "k \<notin> set (map f xs)" using Cons.prems(1) by auto
    then have "filter (\<lambda>y. k = f y) xs = []" by (auto simp: filter_empty_conv)
    then show ?thesis using True by simp
  next
    case False
    then have "k \<in> set (map f xs)" using Cons.prems(2) by auto
    then show ?thesis using Cons.IH Cons.prems(1) False by auto
  qed
qed

lemma join_rows_per_ticket:
  assumes "distinct (map bus_rowid (buses st))"
    and "\<forall>t \<in> set (tickets st). bus_id t \<in> set (map bus_rowid (buses st))"
  shows "map Some (join_rows st) =
         map (\<lambda>t. map_option (booking_row_of t) (bus_of st t)) (tickets st)"
proof -
  have one: "map Some (map (\<lambda>b. booking_row_of t b) (filter (\<lambda>b. bus_id t = bus_rowid b) (buses st)))
         = [map_option (booking_row_of t) (bus_of st t)]"
    if "t \<in> set (tickets st)" for t
    using filter_unique[OF assms(1), of "bus_id t"] assms(2) that
    by (auto simp: bus_of_def)
  have "map Some (concat (map g ts)) = map h ts"
    if "\<forall>t \<in> set ts. map Some (g t) = [h t]" for g :: "ticket \<Rightarrow> booking_row list" and h ts
    using that by (induction ts) simp_all
  from this[of "tickets st" "\<lambda>t. map (\<lambda>b. booking_row_of t b) (filter (\<lambda>b. bus_id t = bus_rowid b) (buses st))"
      "\<lambda>t. map_option (booking_row_of t) (bus_of st t)"] one
  show ?thesis by (simp add: join_rows_def booking_row_of_def)
qed

lemma fold_max_ge:
  "(a::nat) \<le> fold max ids a \<and> (\<forall>x \<in> set ids. x \<le> fold max ids a)"
proof (induction ids arbitrary: a)
  case Nil
  then show ?case by simp
next
  case (Cons i ids)
  have "max i a \<le> fold max ids (max i a)" "\<forall>x \<in> set ids. x \<le> fold max ids (max i a)"
    using Cons.IH[of "max i a"] by simp_all
  then show ?case by auto
qed

lemma next_rowid_fresh: "next_rowid ids \<notin> set ids"
  using fold_max_ge[of 0 ids] by (auto simp: next_rowid_def)

lemma next_bus_rowid_fresh: "next_rowid (map bus_rowid bs) \<notin> bus_rowid ` set bs"
  using next_rowid_fresh[of "map bus_rowid bs"] by simp

text \<open>In a database reached from the empty one every ticket has exactly one bus.\<close>

lemma handle_refs_ok:
  assumes "refs_ok st"
  shows "refs_ok (handle st r)"
proof (cases r)
  case (AddBus a b c d)
  obtain res st' where eq: "add_bus st a b c d = (res, st')" by (cases "add_bus st a b c d")
  from add_bus_cases[OF eq] assms have "refs_ok st'"
    by (auto simp: refs_ok_def next_bus_rowid_fresh)
  then show ?thesis using AddBus eq by simp
next
  case (BookTicket p bn d sn)
  obtain res st' where eq: "book_ticket st p bn d sn = (res, st')"
    by (cases "book_ticket st p bn d sn")
  from book_ticket_cases[OF eq] assms have "refs_ok st'"
    by (auto simp: refs_ok_def find_by_name_def find_Some_iff)
  then show ?thesis using BookTicket eq by simp
qed

lemma run_refs_ok: "refs_ok st \<Longrightarrow> refs_ok (run rs st)"
  unfolding run_def by (induction rs arbitrary: st) (simp_all add: handle_refs_ok)

lemma reachable_refs_ok: "refs_ok (run rs empty_store)"
  by (rule run_refs_ok) (simp add: refs_ok_def empty_store_def)

text \<open>
  Claim C7. For every state of the database, \<open>view_bookings\<close> returns "No bookings yet"
  when there is no row and otherwise the rows, which are in ascending order of travel
  date, then bus name, then seat number; the rows are exactly the pairs of a ticket and a
  bus with the ticket's \<open>bus_id\<close>; the sequence of keys shown does not depend on the order
  in which the tickets were inserted; and in every database reached from the empty one
  there is one row for each ticket, made of the ticket and its bus.
\<close>

theorem view_bookings_sorted:
  "view_bookings st =
     (if rows_of (view_bookings st) = [] then NoBookingsYet
      else BookingLines (rows_of (view_bookings st)))
   \<and> sorted_wrt row_le (rows_of (view_bookings st))
   \<and> mset (rows_of (view_bookings st)) =
       image_mset (\<lambda>(t, b). booking_row_of t b)
         (filter_mset (\<lambda>(t, b). bus_id t = bus_rowid b)
           (mset (List.product (tickets st) (buses st))))
   \<and> (mset (tickets st') = mset (tickets st) \<and> buses st' = buses st \<longrightarrow>
        map order_key (rows_of (view_bookings st'))
          = map order_key (rows_of (view_bookings st)))
   \<and> image_mset Some (mset (rows_of (view_bookings (run rs empty_store)))) =
       image_mset (\<lambda>t. map_option (booking_row_of t) (bus_of (run rs empty_store) t))
         (mset (tickets (run rs empty_store)))"
proof -
  have shape: "view_bookings st =
     (if rows_of (view_bookings st) = [] then NoBookingsYet
      else BookingLines (rows_of (view_bookings st)))"
    by (simp add: view_bookings_def Let_def rows_of_def)
  have "sorted (map order_key (booking_rows st))"
    by (simp add: booking_rows_def)
  then have srt: "sorted_wrt row_le (rows_of (view_bookings st))"
    by (simp add: sorted_map order_key_le_iff rows_of_view_bookings)
  have "mset (booking_rows st) = mset (join_rows st)"
    by (simp add: booking_rows_def)
  also have "\<dots> = image_mset (\<lambda>(t, b). booking_row_of t b)
         (filter_mset (\<lambda>(t, b). bus_id t = bus_rowid b)
           (mset (List.product (tickets st) (buses st))))"
    by (simp add: join_rows_product)
  finally have content: "mset (rows_of (view_bookings st)) =
       image_mset (\<lambda>(t, b). booking_row_of t b)
         (filter_mset (\<lambda>(t, b). bus_id t = bus_rowid b)
           (mset (List.product (tickets st) (buses st))))"
    by (simp add: rows_of_view_bookings)
  have perm: "map order_key (rows_of (view_bookings st'))
          = map order_key (rows_of (view_bookings st))"
    if "mset (tickets st') = mset (tickets st)" "buses st' = buses st"
  proof -
    have "mset (map order_key (join_rows st')) = mset (map order_key (join_rows st))"
      using mset_join_rows[OF that] by simp
    then have "sort (map order_key (join_rows st')) = sort (map order_key (join_rows st))"
      by (metis properties_for_sort mset_sort sorted_sort)
    then show ?thesis
      by (simp add: rows_of_view_bookings booking_rows_def sort_map_sort_key)
  qed
  define rt where "rt = run rs empty_store"
  have ok: "refs_ok rt" unfolding rt_def by (rule reachable_refs_ok)
  have "image_mset Some (mset (booking_rows rt)) = image_mset Some (mset (join_rows rt))"
    by (simp add: booking_rows_def)
  also have "\<dots> = mset (map Some (join_rows rt))" by simp
  also have "\<dots> = mset (map (\<lambda>t. map_option (booking_row_of t) (bus_of rt t)) (tickets rt))"
    using join_rows_per_ticket[of rt] ok by (simp add: refs_ok_def)
  finally have each: "image_mset Some (mset (rows_of (view_bookings (run rs empty_store)))) =
       image_mset (\<lambda>t. map_option (booking_row_of t) (bus_of (run rs empty_store) t))
         (mset (tickets (run rs empty_store)))"
    by (simp add: rows_of_view_bookings rt_def)
  show ?thesis using shape srt content perm each by blast
qed

lemma run_sample: "run sample_requests empty_store = sample_store"
  by (simp add: run_def sample_requests_def sample_store_def add_bus_def add_bus_try_def
      truthy_str_def float_of_int_def trunc_def insert_bus_def fits_int64_def empty_store_def
      strip_def py_isspace_def next_rowid_def book_ticket_def find_by_name_def
      insert_ticket_def ticket_key_def)

theorem view_bookings_sorted_witness:
  "view_bookings (run sample_requests empty_store) =
     BookingLines
       [(3, ''Carol'', ''Express1'', ''2024-04-30'', 7),
        (2, ''Bob'', ''CityLink'', ''2024-05-01'', 9),
        (4, ''Dan'', ''Express1'', ''2024-05-01'', 2),
        (1, ''Alice'', ''Express1'', ''2024-05-01'', 5)]
   \<and> sorted_wrt row_le (rows_of (view_bookings (run sample_requests empty_store)))
   \<and> map order_key (rows_of (view_bookings
         (sample_store\<lparr>tickets := rev (tickets sample_store)\<rparr>)))
       = [(''2024-04-30'', ''Express1'', 7), (''2024-05-01'', ''CityLink'', 9),
          (''2024-05-01'', ''Express1'', 2), (''2024-05-01'', ''Express1'', 5)]"
proof -
  have v: "view_bookings sample_store =
     BookingLines
       [(3, ''Carol'', ''Express1'', ''2024-04-30'', 7),
        (2, ''Bob'', ''CityLink'', ''2024-05-01'', 9),
        (4, ''Dan'', ''Express1'', ''2024-05-01'', 2),
        (1, ''Alice'', ''Express1'', ''2024-05-01'', 5)]"
    by (simp add: view_bookings_def booking_rows_def sample_store_def join_rows_def
        order_key_def less_eq_prod_def less_eq_char_def less_char_def)
  show ?thesis
    using view_bookings_sorted [of sample_store "sample_store\<lparr>tickets := rev (tickets sample_store)\<rparr>"
        sample_requests] v
    by (simp add: run_sample rows_of_def order_key_def)
qed

section \<open>Adding a bus and finding it again\<close>

lemma find_appended:
  "n \<notin> set (map bus_name bs) \<Longrightarrow> bus_name b = n \<Longrightarrow> find (\<lambda>x. bus_name x = n) (bs @ [b]) = Some b"
  by (induction bs) auto

text \<open>
  Claim C9 says that after a successful \<open>add_bus\<close> an exact-match lookup of the name that
  was passed returns a bus with exactly the fields that were passed. The row is written
  with each text field trimmed: a name with a blank on either side is stored without them,
  and looking up the name as passed finds nothing.
\<close>

theorem add_bus_lookup_untrimmed:
  "fst (add_bus empty_store (Some '' Express1 '') (Some ''CityA'') (Some ''CityB'') (PInt 40))
     = Inr (BusAdded (Some '' Express1 '') 40)
   \<and> find_by_name
        (snd (add_bus empty_store (Some '' Express1 '') (Some ''CityA'') (Some ''CityB'') (PInt 40)))
        '' Express1 '' = None
   \<and> find_by_name
        (snd (add_bus empty_store (Some '' Express1 '') (Some ''CityA'') (Some ''CityB'') (PInt 40)))
        ''Express1'' =
      Some \<lparr>bus_rowid = 1, bus_name = ''Express1'', from_city = ''CityA'', to_city = ''CityB'',
             total_seats = 40\<rparr>"
  by (simp add: add_bus_def add_bus_try_def truthy_str_def float_of_int_def trunc_def
      insert_bus_def fits_int64_def empty_store_def strip_def py_isspace_def next_rowid_def
      find_by_name_def)

text \<open>
  Claim C9, amended. For a non-empty name, origin and destination, a capacity that
  \<open>int(float(capacity))\<close> turns into a positive 64-bit integer, and a trimmed name not in
  use, \<open>add_bus\<close> succeeds, and an exact-match lookup of the trimmed name returns the bus
  whose name, origin and destination are the trimmed inputs and whose capacity is that
  integer.
\<close>

theorem add_bus_then_find:
  assumes "n \<noteq> []" "f \<noteq> []" "t \<noteq> []"
    and "py_float d = Inr fl" "int_of_float fl = Inr seats" "0 < seats" "fits_int64 seats"
    and "strip n \<notin> set (map bus_name (buses st))"
  shows "fst (add_bus st (Some n) (Some f) (Some t) d) = Inr (BusAdded (Some n) seats)
       \<and> find_by_name (snd (add_bus st (Some n) (Some f) (Some t) d)) (strip n) =
           Some \<lparr>bus_rowid = next_rowid (map bus_rowid (buses st)), bus_name = strip n,
                  from_city = strip f, to_city = strip t, total_seats = seats\<rparr>"
  using add_bus_success[OF assms] find_appended[OF assms(8)]
  by (simp add: find_by_name_def)

theorem add_bus_then_find_witness:
  "fst (add_bus empty_store (Some '' Express1 '') (Some ''CityA'') (Some ''CityB'') (PFloat (Finite (5 / 2))))
     = Inr (BusAdded (Some '' Express1 '') 2)
   \<and> find_by_name
       (snd (add_bus empty_store (Some '' Express1 '') (Some ''CityA'') (Some ''CityB'') (PFloat (Finite (5 / 2)))))
       ''Express1'' =
      Some \<lparr>bus_rowid = 1, bus_name = ''Express1'', from_city = ''CityA'', to_city = ''CityB'',
             total_seats = 2\<rparr>"
proof -
  have fl: "\<lfloor>5 / 2 :: rat\<rfloor> = 2" by (simp add: floor_eq_iff)
  have s: "strip '' Express1 '' = ''Express1''" "strip ''CityA'' = ''CityA''"
    "strip ''CityB'' = ''CityB''"
    by (simp_all add: strip_def py_isspace_def)
  show ?thesis
    using add_bus_then_find [of "'' Express1 ''" "''CityA''" "''CityB''" "PFloat (Finite (5 / 2))"
        "Finite (5 / 2)" 2 empty_store]
    by (simp add: empty_store_def fl s next_rowid_def trunc_def fits_int64_def)
qed

section \<open>Failures change nothing\<close>















end
